theory Spec2Isabelle
  imports Main "HOL-Library.Word" "HOL-Library.AList"
begin

section \<open>The schema-migrations table upgrade of the SQL store\<close>

text \<open>
  A shallow embedding of \<^verbatim>\<open>server/services/store/sqlstore/schema_table_migration.go\<close>.
  The Go methods talk to a database through \<^verbatim>\<open>database/sql\<close> and the squirrel query
  builder. Both are outside the file, so every call into them is a field of the record
  \<open>env\<close> below: the program is modelled for an arbitrary database behind the connection,
  and a reference database (further down) gives the statements their usual SQL meaning.
\<close>

subsection \<open>Data\<close>

text \<open>Go's \<^verbatim>\<open>error\<close> values, identified by their message.\<close>

type_synonym error = string

text \<open>
  A Go call ends in one of three ways: it returns a value with a nil error, it returns a
  non-nil error, or it panics (here only by dereferencing a nil pointer).
\<close>

datatype 'a result = Ok 'a | Err error | Panic

text \<open>The fields of morph's \<^verbatim>\<open>models.Migration\<close> that the file reads.\<close>

datatype direction = Up | Down

record Migration =
  Version :: "32 word"
  Name :: string
  Direction :: direction

text \<open>
  \<^verbatim>\<open>s.dbType\<close> is compared with three constants of package \<^verbatim>\<open>model\<close>; every
  other value takes the default branches.
\<close>

datatype dbType = SqliteDBType | MysqlDBType | PostgresDBType | OtherDBType

text \<open>
  The statements the file sends. A \<^verbatim>\<open>sq.Eq\<close> map is a list of (column, value) pairs;
  squirrel renders each pair as \<^verbatim>\<open>column = ?\<close> and passes the Go value as the bound
  argument of the placeholder.
  \<^item> \<open>SelectCountWhere t conds\<close>: \<^verbatim>\<open>Select("count(*)").From(t).Where(sq.Eq{...})\<close>
  \<^item> \<open>PragmaTableInfo t\<close>: \<^verbatim>\<open>PRAGMA table_info("t");\<close>
  \<^item> \<open>SelectFrom c t\<close>: \<^verbatim>\<open>Select(c).From(t)\<close>
  \<^item> \<open>CreateTableIfNotExists t\<close>:
    \<^verbatim>\<open>CREATE TABLE IF NOT EXISTS t (Version bigint NOT NULL, Name varchar(64) NOT NULL, PRIMARY KEY (Version))\<close>
  \<^item> \<open>InsertInto t cols vals\<close>: \<^verbatim>\<open>Insert(t).Columns(cols...)\<close> followed by one
    \<^verbatim>\<open>.Values(version, name)\<close> per element of \<open>vals\<close>
  \<^item> \<open>RenameTable a b\<close>: \<^verbatim>\<open>RENAME TABLE `a` TO `b`\<close>
  \<^item> \<open>AlterTableRenameTo a b\<close>: \<^verbatim>\<open>ALTER TABLE a RENAME TO b\<close>
  \<^item> \<open>DropTableIfExists t\<close>: \<^verbatim>\<open>DROP TABLE IF EXISTS t\<close>
\<close>

datatype stmt =
    SelectCountWhere string "(string \<times> string) list"
  | PragmaTableInfo string
  | SelectFrom string string
  | CreateTableIfNotExists string
  | InsertInto string "string list" "(32 word \<times> string) list"
  | RenameTable string string
  | AlterTableRenameTo string string
  | DropTableIfExists string

text \<open>
  What lies outside the file, for a database state of type \<open>'db\<close>:
  \<^item> \<open>Exec\<close>: \<^verbatim>\<open>s.db.Exec(query)\<close> and the builder's \<^verbatim>\<open>query.Exec()\<close>; the statement may
    change the database and may fail;
  \<^item> \<open>QueryRowInt\<close>: \<^verbatim>\<open>query.QueryRow()\<close> followed by \<^verbatim>\<open>row.Scan(&count)\<close>, \<open>count\<close> an \<^verbatim>\<open>int\<close>;
  \<^item> \<open>QueryRowUint32\<close>: the same with a \<^verbatim>\<open>uint32\<close> destination;
  \<^item> \<open>Query\<close>: \<^verbatim>\<open>s.db.Query(query)\<close>; the rows delivered by \<^verbatim>\<open>rows.Next()\<close>, each a list
    of nullable columns;
  \<^item> \<open>ReadDir\<close>: \<^verbatim>\<open>Assets.ReadDir(dir)\<close>, the names of the embedded files;
  \<^item> \<open>NewMigration\<close>: morph's \<^verbatim>\<open>models.NewMigration\<close>, which parses a file name;
  \<^item> \<open>tempSchemaMigrationTableName\<close>: a constant of the package declared in another file.
\<close>

record 'db env =
  Exec :: "stmt \<Rightarrow> 'db \<Rightarrow> error option \<times> 'db"
  QueryRowInt :: "stmt \<Rightarrow> 'db \<Rightarrow> error + int"
  QueryRowUint32 :: "stmt \<Rightarrow> 'db \<Rightarrow> error + 32 word"
  Query :: "stmt \<Rightarrow> 'db \<Rightarrow> error + string option list list"
  ReadDir :: "string \<Rightarrow> error + string list"
  NewMigration :: "string \<Rightarrow> error + Migration"
  tempSchemaMigrationTableName :: string

text \<open>
  The receiver \<^verbatim>\<open>s *SQLStore\<close>: the connection (as the state of the database behind it),
  the dialect tag, the table prefix and the schema name. \<open>sent\<close> is a ghost field: every
  statement sent over the connection so far, in order, with the error it came back with.
\<close>

record 'db SQLStore =
  db :: 'db
  dbType :: dbType
  tablePrefix :: string
  schemaName :: string
  sent :: "(stmt \<times> error option) list"

subsection \<open>Sending statements\<close>

definition record_stmt :: "stmt \<Rightarrow> error option \<Rightarrow> 'db SQLStore \<Rightarrow> 'db SQLStore" where
  "record_stmt q r s = s\<lparr>sent := sent s @ [(q, r)]\<rparr>"

definition db_exec :: "'db env \<Rightarrow> stmt \<Rightarrow> 'db SQLStore \<Rightarrow> error option \<times> 'db SQLStore" where
  "db_exec w q s =
     (case Exec w q (db s) of (r, d) \<Rightarrow> (r, record_stmt q r (s\<lparr>db := d\<rparr>)))"

subsection \<open>filterMigrations\<close>

text \<open>The loop of \<^verbatim>\<open>filterMigrations\<close>; \<open>acc\<close> is the slice \<^verbatim>\<open>filteredMigrations\<close>.\<close>

fun filterMigrations_loop :: "Migration list \<Rightarrow> 32 word \<Rightarrow> Migration list \<Rightarrow> Migration list" where
  "filterMigrations_loop [] legacySchemaVersion acc = acc"
| "filterMigrations_loop (migration # rest) legacySchemaVersion acc =
     (if Direction migration \<noteq> Up then filterMigrations_loop rest legacySchemaVersion acc
      else if Version migration > legacySchemaVersion
        then filterMigrations_loop rest legacySchemaVersion acc
      else filterMigrations_loop rest legacySchemaVersion (acc @ [migration]))"

definition filterMigrations :: "Migration list \<Rightarrow> 32 word \<Rightarrow> Migration list" where
  "filterMigrations migrations legacySchemaVersion =
     filterMigrations_loop migrations legacySchemaVersion []"

subsection \<open>getEmbeddedMigrations\<close>

fun getEmbeddedMigrations_loop ::
  "'db env \<Rightarrow> string list \<Rightarrow> Migration list \<Rightarrow> Migration list result" where
  "getEmbeddedMigrations_loop w [] migrations = Ok migrations"
| "getEmbeddedMigrations_loop w (f # rest) migrations =
     (case NewMigration w f of
        Inl err \<Rightarrow> Err err
      | Inr m \<Rightarrow>
          if Direction m \<noteq> Up then getEmbeddedMigrations_loop w rest migrations
          else getEmbeddedMigrations_loop w rest (migrations @ [m]))"

definition getEmbeddedMigrations :: "'db env \<Rightarrow> Migration list result" where
  "getEmbeddedMigrations w =
     (case ReadDir w ''migrations'' of
        Inl err \<Rightarrow> Err err
      | Inr assetsList \<Rightarrow> getEmbeddedMigrations_loop w assetsList [])"

subsection \<open>The format detector\<close>

text \<open>
  \<^verbatim>\<open>rows.Scan\<close> with six destinations: database/sql refuses a row that does not have six
  columns. A NULL column leaves the \<^verbatim>\<open>*string\<close> destination nil (\<open>None\<close>).
\<close>

definition scan6 :: "string option list \<Rightarrow> error + string option list" where
  "scan6 cols =
     (if length cols = 6 then Inr cols
      else Inl ''sql: wrong number of destination arguments in Scan'')"

text \<open>The first loop of \<^verbatim>\<open>isSchemaMigrationNeededSQLite\<close>: scan every row into \<open>data\<close>.\<close>

fun scan_rows :: "string option list list \<Rightarrow> string option list list \<Rightarrow> error + string option list list" where
  "scan_rows [] data = Inr data"
| "scan_rows (cols # rest) data =
     (case scan6 cols of
        Inl err \<Rightarrow> Inl err
      | Inr row \<Rightarrow> scan_rows rest (data @ [row]))"

text \<open>
  The second loop: \<^verbatim>\<open>len(row) >= 2 && *row[1] == "dirty"\<close>. The dereference of a nil
  \<^verbatim>\<open>row[1]\<close> panics.
\<close>

fun nameColumnFound :: "string option list list \<Rightarrow> bool result" where
  "nameColumnFound [] = Ok False"
| "nameColumnFound (row # rest) =
     (if length row \<ge> 2 then
        (case row ! 1 of
           None \<Rightarrow> Panic
         | Some name \<Rightarrow> if name = ''dirty'' then Ok True else nameColumnFound rest)
      else nameColumnFound rest)"

definition isSchemaMigrationNeededSQLite :: "'db env \<Rightarrow> 'db SQLStore \<Rightarrow> bool result \<times> 'db SQLStore" where
  "isSchemaMigrationNeededSQLite w s =
     (let query = PragmaTableInfo (tablePrefix s @ ''schema_migrations'') in
      case Query w query (db s) of
        Inl err \<Rightarrow> (Err err, record_stmt query (Some err) s)
      | Inr rows \<Rightarrow>
          (case scan_rows rows [] of
             Inl err \<Rightarrow> (Err err, record_stmt query None s)
           | Inr data \<Rightarrow> (nameColumnFound data, record_stmt query None s)))"

definition isSchemaMigrationNeeded_query :: "'db SQLStore \<Rightarrow> stmt" where
  "isSchemaMigrationNeeded_query s =
     (let conds = [(''TABLE_NAME'', tablePrefix s @ ''schema_migrations''),
                   (''COLUMN_NAME'', ''dirty'')]
      in SelectCountWhere ''information_schema.COLUMNS''
           (case dbType s of
              MysqlDBType \<Rightarrow> conds @ [(''TABLE_SCHEMA'', schemaName s)]
            | PostgresDBType \<Rightarrow> conds @ [(''TABLE_SCHEMA'', ''current_schema()'')]
            | _ \<Rightarrow> conds))"

definition isSchemaMigrationNeeded :: "'db env \<Rightarrow> 'db SQLStore \<Rightarrow> bool result \<times> 'db SQLStore" where
  "isSchemaMigrationNeeded w s =
     (if dbType s = SqliteDBType then isSchemaMigrationNeededSQLite w s
      else
        let query = isSchemaMigrationNeeded_query s in
        case QueryRowInt w query (db s) of
          Inl err \<Rightarrow> (Err err, record_stmt query (Some err) s)
        | Inr count \<Rightarrow> (Ok (count = 1), record_stmt query None s))"

subsection \<open>Reading the legacy version, building the new table, swapping, cleaning up\<close>

definition getLegacySchemaVersion :: "'db env \<Rightarrow> 'db SQLStore \<Rightarrow> 32 word result \<times> 'db SQLStore" where
  "getLegacySchemaVersion w s =
     (let query = SelectFrom ''version'' (tablePrefix s @ ''schema_migrations'') in
      case QueryRowUint32 w query (db s) of
        Inl err \<Rightarrow> (Err err, record_stmt query (Some err) s)
      | Inr version \<Rightarrow> (Ok version, record_stmt query None s))"

definition createTempSchemaTable :: "'db env \<Rightarrow> 'db SQLStore \<Rightarrow> error option \<times> 'db SQLStore" where
  "createTempSchemaTable w s =
     db_exec w (CreateTableIfNotExists (tablePrefix s @ tempSchemaMigrationTableName w)) s"

definition populateTempSchemaTable ::
  "'db env \<Rightarrow> Migration list \<Rightarrow> 'db SQLStore \<Rightarrow> error option \<times> 'db SQLStore" where
  "populateTempSchemaTable w migrations s =
     db_exec w
       (InsertInto (tablePrefix s @ tempSchemaMigrationTableName w) [''Version'', ''Name'']
          (map (\<lambda>migration. (Version migration, Name migration)) migrations)) s"

definition rename_stmt :: "dbType \<Rightarrow> string \<Rightarrow> string \<Rightarrow> stmt" where
  "rename_stmt t a b = (if t = MysqlDBType then RenameTable a b else AlterTableRenameTo a b)"

definition useNewSchemaTable :: "'db env \<Rightarrow> 'db SQLStore \<Rightarrow> error option \<times> 'db SQLStore" where
  "useNewSchemaTable w s =
     (case db_exec w
             (rename_stmt (dbType s) (tablePrefix s @ ''schema_migrations'')
                (tablePrefix s @ ''schema_migrations_old_temp'')) s of
        (Some err, s1) \<Rightarrow> (Some err, s1)
      | (None, s1) \<Rightarrow>
          db_exec w
            (rename_stmt (dbType s) (tablePrefix s @ tempSchemaMigrationTableName w)
               (tablePrefix s @ ''schema_migrations'')) s1)"

definition deleteOldSchemaMigrationTable :: "'db env \<Rightarrow> 'db SQLStore \<Rightarrow> error option \<times> 'db SQLStore" where
  "deleteOldSchemaMigrationTable w s =
     db_exec w (DropTableIfExists (tablePrefix s @ ''schema_migrations_old_temp'')) s"

subsection \<open>EnsureSchemaMigrationFormat\<close>

definition EnsureSchemaMigrationFormat :: "'db env \<Rightarrow> 'db SQLStore \<Rightarrow> unit result \<times> 'db SQLStore" where
  "EnsureSchemaMigrationFormat w s =
     (case isSchemaMigrationNeeded w s of
        (Panic, s1) \<Rightarrow> (Panic, s1)
      | (Err err, s1) \<Rightarrow> (Err err, s1)
      | (Ok migrationNeeded, s1) \<Rightarrow>
          if \<not> migrationNeeded then (Ok (), s1)
          else
            (case getLegacySchemaVersion w s1 of
               (Panic, s2) \<Rightarrow> (Panic, s2)
             | (Err err, s2) \<Rightarrow> (Err err, s2)
             | (Ok legacySchemaVersion, s2) \<Rightarrow>
                 (case getEmbeddedMigrations w of
                    Panic \<Rightarrow> (Panic, s2)
                  | Err err \<Rightarrow> (Err err, s2)
                  | Ok migrations \<Rightarrow>
                      let filteredMigrations = filterMigrations migrations legacySchemaVersion in
                      (case createTempSchemaTable w s2 of
                         (Some err, s3) \<Rightarrow> (Err err, s3)
                       | (None, s3) \<Rightarrow>
                           (case populateTempSchemaTable w filteredMigrations s3 of
                              (Some err, s4) \<Rightarrow> (Err err, s4)
                            | (None, s4) \<Rightarrow>
                                (case useNewSchemaTable w s4 of
                                   (Some err, s5) \<Rightarrow> (Err err, s5)
                                 | (None, s5) \<Rightarrow> (Ok (), s5)))))))"

section \<open>A reference database\<close>

text \<open>
  The SQL backends are not part of the repository. What the claims say about the contents
  of tables is proved against the semantics fixed here; what they say about the order of
  statements and about errors is proved for every \<open>env\<close>.

  The meaning of the statements on a database with one schema, its tables an association
  list from names to tables. A table has named columns, possibly a primary-key column, and
  rows of values. Table names and the texts of the metadata catalog are compared exactly,
  values are stored as given (no length limit on text, no NOT NULL check; a column the
  insert does not name gets NULL), and a statement that fails leaves the database as it
  was.
\<close>

datatype val = NullV | IntV int | TextV string | BoolV bool

record table =
  columns :: "string list"
  pkey :: "string option"
  rows :: "val list list"

record database =
  schema :: string
  tables :: "(string \<times> table) list"

text \<open>
  A column named in a statement is matched without regard to the case of its letters, as
  SQL identifiers are.
\<close>

definition fold_case :: "string \<Rightarrow> string" where
  "fold_case n =
     map (\<lambda>c. case map_of (zip ''ABCDEFGHIJKLMNOPQRSTUVWXYZ'' ''abcdefghijklmnopqrstuvwxyz'') c of
                 Some l \<Rightarrow> l
               | None \<Rightarrow> c) n"

definition cell :: "table \<Rightarrow> val list \<Rightarrow> string \<Rightarrow> val option" where
  "cell t r c = map_of (zip (map fold_case (columns t)) r) (fold_case c)"

text \<open>The rows of \<^verbatim>\<open>information_schema.COLUMNS\<close>: (TABLE_SCHEMA, TABLE_NAME, COLUMN_NAME).\<close>

definition information_schema_columns :: "database \<Rightarrow> (string \<times> string \<times> string) list" where
  "information_schema_columns d =
     concat (map (\<lambda>(n, t). map (\<lambda>c. (schema d, n, c)) (columns t)) (tables d))"

fun cond_known :: "string \<times> string \<Rightarrow> bool" where
  "cond_known (k, v) = (k = ''TABLE_SCHEMA'' \<or> k = ''TABLE_NAME'' \<or> k = ''COLUMN_NAME'')"

text \<open>\<^verbatim>\<open>k = ?\<close> with the bound argument \<open>v\<close>: the column's text is compared with \<open>v\<close>.\<close>

fun cond_holds :: "string \<times> string \<times> string \<Rightarrow> string \<times> string \<Rightarrow> bool" where
  "cond_holds (sch, tn, cn) (k, v) =
     (if k = ''TABLE_SCHEMA'' then sch = v
      else if k = ''TABLE_NAME'' then tn = v
      else cn = v)"

definition ref_QueryRowInt :: "stmt \<Rightarrow> database \<Rightarrow> error + int" where
  "ref_QueryRowInt q d =
     (case q of
        SelectCountWhere from conds \<Rightarrow>
          if from = ''information_schema.COLUMNS'' \<and> list_all cond_known conds
          then Inr (int (length (filter (\<lambda>r. list_all (cond_holds r) conds)
                                   (information_schema_columns d))))
          else Inl ''unknown table or column''
      | _ \<Rightarrow> Inl ''not a count query'')"

text \<open>
  \<^verbatim>\<open>PRAGMA table_info\<close>: one row (cid, name, type, notnull, dflt_value, pk) per column,
  none for a table that does not exist. Only the name is modelled in full; the default
  value is NULL.
\<close>

definition table_info_row :: "table \<Rightarrow> string \<Rightarrow> string option list" where
  "table_info_row t c =
     [Some ''0'', Some c, Some [], Some ''0'', None,
      Some (if pkey t = Some c then ''1'' else ''0'')]"

definition ref_Query :: "stmt \<Rightarrow> database \<Rightarrow> error + string option list list" where
  "ref_Query q d =
     (case q of
        PragmaTableInfo n \<Rightarrow>
          (case map_of (tables d) n of
             None \<Rightarrow> Inr []
           | Some t \<Rightarrow> Inr (map (table_info_row t) (columns t)))
      | _ \<Rightarrow> Inl ''not a pragma'')"

text \<open>
  A one-column select read by \<^verbatim>\<open>QueryRow().Scan\<close> into a \<^verbatim>\<open>uint32\<close>: the first row,
  which must hold an integer in range.
\<close>

definition ref_QueryRowUint32 :: "stmt \<Rightarrow> database \<Rightarrow> error + 32 word" where
  "ref_QueryRowUint32 q d =
     (case q of
        SelectFrom c n \<Rightarrow>
          (case map_of (tables d) n of
             None \<Rightarrow> Inl ''no such table''
           | Some t \<Rightarrow>
               if fold_case c \<notin> set (map fold_case (columns t)) then Inl ''no such column''
               else
                 (case rows t of
                    [] \<Rightarrow> Inl ''sql: no rows in result set''
                  | r # _ \<Rightarrow>
                      (case cell t r c of
                         Some (IntV i) \<Rightarrow>
                           if 0 \<le> i \<and> i < 2 ^ 32 then Inr (word_of_int i)
                           else Inl ''sql: Scan error: value out of range''
                       | _ \<Rightarrow> Inl ''sql: Scan error: converting to uint32'')))
      | _ \<Rightarrow> Inl ''not a select'')"

definition new_table :: table where
  "new_table = \<lparr>columns = [''Version'', ''Name''], pkey = Some ''Version'', rows = []\<rparr>"

definition insert_row :: "table \<Rightarrow> string list \<Rightarrow> 32 word \<times> string \<Rightarrow> val list" where
  "insert_row t cols v =
     map (\<lambda>c. case map_of (zip (map fold_case cols) [IntV (uint (fst v)), TextV (snd v)])
                      (fold_case c) of
                 Some x \<Rightarrow> x
               | None \<Rightarrow> NullV)
         (columns t)"

definition key_violation :: "table \<Rightarrow> val list list \<Rightarrow> bool" where
  "key_violation t new =
     (case pkey t of
        None \<Rightarrow> False
      | Some k \<Rightarrow>
          \<not> distinct (map (\<lambda>r. cell t r k) new) \<or>
          list_ex (\<lambda>r. cell t r k \<in> set (map (\<lambda>r'. cell t r' k) (rows t))) new)"

definition rename_table :: "string \<Rightarrow> string \<Rightarrow> database \<Rightarrow> error option \<times> database" where
  "rename_table a b d =
     (case map_of (tables d) a of
        None \<Rightarrow> (Some ''no such table'', d)
      | Some t \<Rightarrow>
          if map_of (tables d) b \<noteq> None then (Some ''table already exists'', d)
          else (None, d\<lparr>tables := AList.update b t (AList.delete a (tables d))\<rparr>))"

text \<open>
  squirrel refuses to build an insert without values, before anything reaches the
  database.
\<close>

definition ref_Exec :: "stmt \<Rightarrow> database \<Rightarrow> error option \<times> database" where
  "ref_Exec q d =
     (case q of
        CreateTableIfNotExists n \<Rightarrow>
          (case map_of (tables d) n of
             Some _ \<Rightarrow> (None, d)
           | None \<Rightarrow> (None, d\<lparr>tables := AList.update n new_table (tables d)\<rparr>))
      | InsertInto n cols vals \<Rightarrow>
          if vals = []
          then (Some ''insert statements must have at least one set of values or select clause'', d)
          else
            (case map_of (tables d) n of
               None \<Rightarrow> (Some ''no such table'', d)
             | Some t \<Rightarrow>
                 if length cols \<noteq> 2 \<or>
                    \<not> set (map fold_case cols) \<subseteq> set (map fold_case (columns t))
                 then (Some ''column mismatch'', d)
                 else
                   let new = map (insert_row t cols) vals in
                   if key_violation t new then (Some ''duplicate key'', d)
                   else (None, d\<lparr>tables := AList.update n (t\<lparr>rows := rows t @ new\<rparr>) (tables d)\<rparr>))
      | RenameTable a b \<Rightarrow> rename_table a b d
      | AlterTableRenameTo a b \<Rightarrow> rename_table a b d
      | DropTableIfExists n \<Rightarrow> (None, d\<lparr>tables := AList.delete n (tables d)\<rparr>)
      | _ \<Rightarrow> (None, d))"

definition reference ::
  "string \<Rightarrow> (string \<Rightarrow> error + string list) \<Rightarrow> (string \<Rightarrow> error + Migration) \<Rightarrow> database env" where
  "reference tmp readdir parse =
     \<lparr>Exec = ref_Exec, QueryRowInt = ref_QueryRowInt, QueryRowUint32 = ref_QueryRowUint32,
      Query = ref_Query, ReadDir = readdir, NewMigration = parse,
      tempSchemaMigrationTableName = tmp\<rparr>"

text \<open>No two tables of a database share a name.\<close>

definition wf_database :: "database \<Rightarrow> bool" where
  "wf_database d = distinct (map fst (tables d))"

section \<open>Vocabulary for the statements of a run\<close>

text \<open>The statements one call sent: what \<open>sent\<close> gained between the stores \<open>s\<close> and \<open>s'\<close>.\<close>

definition sent_by :: "'db SQLStore \<Rightarrow> 'db SQLStore \<Rightarrow> (stmt \<times> error option) list" where
  "sent_by s s' = drop (length (sent s)) (sent s')"


fun is_drop :: "stmt \<Rightarrow> bool" where
  "is_drop (DropTableIfExists t) = True"
| "is_drop q = False"


text \<open>The statements of \<^verbatim>\<open>EnsureSchemaMigrationFormat\<close>, by name.\<close>

definition detect_stmt :: "'db SQLStore \<Rightarrow> stmt" where
  "detect_stmt s =
     (if dbType s = SqliteDBType then PragmaTableInfo (tablePrefix s @ ''schema_migrations'')
      else isSchemaMigrationNeeded_query s)"

definition version_stmt :: "'db SQLStore \<Rightarrow> stmt" where
  "version_stmt s = SelectFrom ''version'' (tablePrefix s @ ''schema_migrations'')"

definition create_stmt :: "'db env \<Rightarrow> 'db SQLStore \<Rightarrow> stmt" where
  "create_stmt w s = CreateTableIfNotExists (tablePrefix s @ tempSchemaMigrationTableName w)"

definition insert_stmt :: "'db env \<Rightarrow> 'db SQLStore \<Rightarrow> Migration list \<Rightarrow> stmt" where
  "insert_stmt w s ms =
     InsertInto (tablePrefix s @ tempSchemaMigrationTableName w) [''Version'', ''Name'']
       (map (\<lambda>migration. (Version migration, Name migration)) ms)"

definition rename_old :: "'db SQLStore \<Rightarrow> stmt" where
  "rename_old s =
     rename_stmt (dbType s) (tablePrefix s @ ''schema_migrations'')
       (tablePrefix s @ ''schema_migrations_old_temp'')"

definition rename_new :: "'db env \<Rightarrow> 'db SQLStore \<Rightarrow> stmt" where
  "rename_new w s =
     rename_stmt (dbType s) (tablePrefix s @ tempSchemaMigrationTableName w)
       (tablePrefix s @ ''schema_migrations'')"

text \<open>The rows the new table holds for a list of migrations: (version, name) pairs.\<close>

definition migration_rows :: "Migration list \<Rightarrow> val list list" where
  "migration_rows ms = map (\<lambda>m. [IntV (uint (Version m)), TextV (Name m)]) ms"

text \<open>Running the cleanup \<open>n\<close> times in a row.\<close>

fun cleanup_times :: "nat \<Rightarrow> 'db env \<Rightarrow> 'db SQLStore \<Rightarrow> 'db SQLStore" where
  "cleanup_times 0 w s = s"
| "cleanup_times (Suc n) w s = cleanup_times n w (snd (deleteOldSchemaMigrationTable w s))"

section \<open>Example inputs\<close>

text \<open>
  The embedded directory of the end-to-end scenario: six migrations, each with its up
  and its down file, in the lexical order of a directory listing.
\<close>

definition example_files :: "(string \<times> Migration) list" where
  "example_files =
     [(''000001_init.down.sql'', \<lparr>Version = 1, Name = ''init'', Direction = Down\<rparr>),
      (''000001_init.up.sql'', \<lparr>Version = 1, Name = ''init'', Direction = Up\<rparr>),
      (''000002_add_users.down.sql'', \<lparr>Version = 2, Name = ''add_users'', Direction = Down\<rparr>),
      (''000002_add_users.up.sql'', \<lparr>Version = 2, Name = ''add_users'', Direction = Up\<rparr>),
      (''000003_add_index.down.sql'', \<lparr>Version = 3, Name = ''add_index'', Direction = Down\<rparr>),
      (''000003_add_index.up.sql'', \<lparr>Version = 3, Name = ''add_index'', Direction = Up\<rparr>),
      (''000004_add_column.down.sql'', \<lparr>Version = 4, Name = ''add_column'', Direction = Down\<rparr>),
      (''000004_add_column.up.sql'', \<lparr>Version = 4, Name = ''add_column'', Direction = Up\<rparr>),
      (''000005_add_constraint.down.sql'', \<lparr>Version = 5, Name = ''add_constraint'', Direction = Down\<rparr>),
      (''000005_add_constraint.up.sql'', \<lparr>Version = 5, Name = ''add_constraint'', Direction = Up\<rparr>),
      (''000006_future.down.sql'', \<lparr>Version = 6, Name = ''future'', Direction = Down\<rparr>),
      (''000006_future.up.sql'', \<lparr>Version = 6, Name = ''future'', Direction = Up\<rparr>)]"

text \<open>
  Up entries with versions 1 to 5, and the up migrations of the scenario as
  \<^verbatim>\<open>getEmbeddedMigrations\<close> lists them.
\<close>

definition five_migrations :: "Migration list" where
  "five_migrations =
     [\<lparr>Version = 1, Name = ''init'', Direction = Up\<rparr>,
      \<lparr>Version = 2, Name = ''add_users'', Direction = Up\<rparr>,
      \<lparr>Version = 3, Name = ''add_index'', Direction = Up\<rparr>,
      \<lparr>Version = 4, Name = ''add_column'', Direction = Up\<rparr>,
      \<lparr>Version = 5, Name = ''add_constraint'', Direction = Up\<rparr>]"

definition example_catalog :: "Migration list" where
  "example_catalog = five_migrations @ [\<lparr>Version = 6, Name = ''future'', Direction = Up\<rparr>]"

definition files_env :: "(string \<times> Migration) list \<Rightarrow> database env" where
  "files_env files =
     reference ''temp_schema_migration''
       (\<lambda>dir. if dir = ''migrations'' then Inr (map fst files) else Inl ''file does not exist'')
       (\<lambda>f. case map_of files f of
               Some m \<Rightarrow> Inr m
             | None \<Rightarrow> Inl ''could not parse file'')"

definition example_env :: "database env" where
  "example_env = files_env example_files"

text \<open>Two up files with the same version: the insert violates the primary key.\<close>

definition duplicate_env :: "database env" where
  "duplicate_env =
     files_env
       [(''000001_init.up.sql'', \<lparr>Version = 1, Name = ''init'', Direction = Up\<rparr>),
        (''000001_initial.up.sql'', \<lparr>Version = 1, Name = ''initial'', Direction = Up\<rparr>)]"

text \<open>A connection that is down, a metadata catalog that lists the column twice.\<close>

definition bad_connection_env :: "database env" where
  "bad_connection_env = example_env\<lparr>QueryRowInt := \<lambda>q d. Inl ''driver: bad connection''\<rparr>"

definition two_columns_env :: "database env" where
  "two_columns_env = example_env\<lparr>QueryRowInt := \<lambda>q d. Inr 2\<rparr>"

text \<open>A table introspection whose only row has a NULL name.\<close>

definition null_name_env :: "database env" where
  "null_name_env =
     example_env\<lparr>Query := \<lambda>q d. Inr [[Some ''0'', None, Some ''bigint'', Some ''1'', None, Some ''1'']]\<rparr>"

text \<open>A backend that takes an insert without values as a statement that does nothing.\<close>

definition lenient_env :: "database env" where
  "lenient_env =
     example_env\<lparr>Exec := \<lambda>q d. case q of
                                  InsertInto n cols [] \<Rightarrow> (None, d)
                                | _ \<Rightarrow> ref_Exec q d\<rparr>"

definition legacy_table :: "int \<Rightarrow> table" where
  "legacy_table v =
     \<lparr>columns = [''version'', ''dirty''], pkey = Some ''version'', rows = [[IntV v, BoolV False]]\<rparr>"

text \<open>The legacy table at version \<open>v\<close>, alone in schema \<open>public\<close>.\<close>

definition legacy_db :: "int \<Rightarrow> database" where
  "legacy_db v = \<lparr>schema = ''public'', tables = [(''focalboard_schema_migrations'', legacy_table v)]\<rparr>"

text \<open>The same with a temp table left behind: one holding a row, one with a dirty column.\<close>

definition stale_row_db :: database where
  "stale_row_db =
     \<lparr>schema = ''public'',
      tables = [(''focalboard_schema_migrations'', legacy_table 5),
                (''focalboard_temp_schema_migration'',
                 \<lparr>columns = [''Version'', ''Name''], pkey = Some ''Version'',
                  rows = [[IntV 9, TextV ''stale'']]\<rparr>)]\<rparr>"

definition stale_dirty_db :: database where
  "stale_dirty_db =
     \<lparr>schema = ''public'',
      tables = [(''focalboard_schema_migrations'', legacy_table 5),
                (''focalboard_temp_schema_migration'',
                 \<lparr>columns = [''Version'', ''Name'', ''dirty''], pkey = Some ''Version'', rows = []\<rparr>)]\<rparr>"

text \<open>The database between populate and swap, and one where a backup table is in the way.\<close>

definition populated_db :: database where
  "populated_db =
     \<lparr>schema = ''public'',
      tables = [(''focalboard_schema_migrations'', legacy_table 1),
                (''focalboard_temp_schema_migration'',
                 \<lparr>columns = [''Version'', ''Name''], pkey = Some ''Version'',
                  rows = [[IntV 1, TextV ''init'']]\<rparr>)]\<rparr>"

definition blocked_db :: database where
  "blocked_db =
     \<lparr>schema = ''public'',
      tables = [(''focalboard_schema_migrations'', legacy_table 1),
                (''focalboard_temp_schema_migration'',
                 \<lparr>columns = [''Version'', ''Name''], pkey = Some ''Version'',
                  rows = [[IntV 1, TextV ''init'']]\<rparr>),
                (''focalboard_schema_migrations_old_temp'', legacy_table 0)]\<rparr>"

definition example_store :: "dbType \<Rightarrow> database \<Rightarrow> database SQLStore" where
  "example_store t d =
     \<lparr>db = d, dbType = t, tablePrefix = ''focalboard_'', schemaName = ''public'', sent = []\<rparr>"

section \<open>The runs of EnsureSchemaMigrationFormat\<close>

lemma filterMigrations_loop_filter:
  "filterMigrations_loop ms v acc = acc @ filter (\<lambda>m. Direction m = Up \<and> Version m \<le> v) ms"
  by (induction ms arbitrary: acc) (auto simp: not_less)

lemma getEmbeddedMigrations_loop_no_panic: "getEmbeddedMigrations_loop w fs acc \<noteq> Panic"
  by (induction fs arbitrary: acc) (auto split: sum.splits)

lemma getEmbeddedMigrations_no_panic: "getEmbeddedMigrations w \<noteq> Panic"
  by (simp add: getEmbeddedMigrations_def getEmbeddedMigrations_loop_no_panic split: sum.splits)

text \<open>The detector sends one statement, a read, and changes nothing else of the store.\<close>

lemma detector_sent:
  "\<exists>r. snd (isSchemaMigrationNeeded w s) = record_stmt (detect_stmt s) r s \<and>
       (\<forall>e. r = Some e \<longrightarrow> fst (isSchemaMigrationNeeded w s) = Err e)"
  by (auto simp: isSchemaMigrationNeeded_def isSchemaMigrationNeededSQLite_def detect_stmt_def Let_def
      split: sum.splits)



lemma version_sent:
  "getLegacySchemaVersion w s =
     (case QueryRowUint32 w (version_stmt s) (db s) of
        Inl e \<Rightarrow> (Err e, record_stmt (version_stmt s) (Some e) s)
      | Inr v \<Rightarrow> (Ok v, record_stmt (version_stmt s) None s))"
  by (simp add: getLegacySchemaVersion_def version_stmt_def Let_def split: sum.splits)

text \<open>Create, populate and swap, with the calls into the database laid out.\<close>

lemma tail_unfold:
  "(case createTempSchemaTable w s of
      (Some err, s3) \<Rightarrow> (Err err, s3)
    | (None, s3) \<Rightarrow>
        (case populateTempSchemaTable w ms s3 of
           (Some err, s4) \<Rightarrow> (Err err, s4)
         | (None, s4) \<Rightarrow>
             (case useNewSchemaTable w s4 of
                (Some err, s5) \<Rightarrow> (Err err, s5)
              | (None, s5) \<Rightarrow> (Ok (), s5)))) =
   (let q2 = create_stmt w s; q3 = insert_stmt w s ms; q4 = rename_old s; q5 = rename_new w s in
    case Exec w q2 (db s) of
      (Some e, d3) \<Rightarrow> (Err e, s\<lparr>db := d3, sent := sent s @ [(q2, Some e)]\<rparr>)
    | (None, d3) \<Rightarrow>
       (case Exec w q3 d3 of
          (Some e, d4) \<Rightarrow> (Err e, s\<lparr>db := d4, sent := sent s @ [(q2, None), (q3, Some e)]\<rparr>)
        | (None, d4) \<Rightarrow>
           (case Exec w q4 d4 of
              (Some e, d5) \<Rightarrow>
                (Err e, s\<lparr>db := d5, sent := sent s @ [(q2, None), (q3, None), (q4, Some e)]\<rparr>)
            | (None, d5) \<Rightarrow>
               (case Exec w q5 d5 of
                  (Some e, d6) \<Rightarrow>
                    (Err e, s\<lparr>db := d6,
                       sent := sent s @ [(q2, None), (q3, None), (q4, None), (q5, Some e)]\<rparr>)
                | (None, d6) \<Rightarrow>
                    (Ok (), s\<lparr>db := d6,
                       sent := sent s @ [(q2, None), (q3, None), (q4, None), (q5, None)]\<rparr>)))))"
  by (simp add: createTempSchemaTable_def populateTempSchemaTable_def useNewSchemaTable_def db_exec_def
      record_stmt_def create_stmt_def insert_stmt_def rename_old_def rename_new_def Let_def
      split: prod.splits option.splits)

text \<open>
  Every run of \<^verbatim>\<open>EnsureSchemaMigrationFormat\<close> is one of nine: it ends in the detector, at
  one of the six steps that can fail after it, or it completes the swap.
\<close>

lemma ensure_cases:
  fixes w :: "'db env" and s :: "'db SQLStore"
  obtains
    (detect) r0 where
      "fst (isSchemaMigrationNeeded w s) \<noteq> Ok True"
      "\<And>e. r0 = Some e \<Longrightarrow> fst (isSchemaMigrationNeeded w s) = Err e"
      "EnsureSchemaMigrationFormat w s =
         (case fst (isSchemaMigrationNeeded w s) of
            Ok b \<Rightarrow> Ok () | Err e \<Rightarrow> Err e | Panic \<Rightarrow> Panic,
          s\<lparr>sent := sent s @ [(detect_stmt s, r0)]\<rparr>)"
  | (version) e where
      "fst (isSchemaMigrationNeeded w s) = Ok True"
      "QueryRowUint32 w (version_stmt s) (db s) = Inl e"
      "EnsureSchemaMigrationFormat w s =
         (Err e, s\<lparr>sent := sent s @ [(detect_stmt s, None), (version_stmt s, Some e)]\<rparr>)"
  | (catalog) v e where
      "fst (isSchemaMigrationNeeded w s) = Ok True"
      "QueryRowUint32 w (version_stmt s) (db s) = Inr v"
      "getEmbeddedMigrations w = Err e"
      "EnsureSchemaMigrationFormat w s =
         (Err e, s\<lparr>sent := sent s @ [(detect_stmt s, None), (version_stmt s, None)]\<rparr>)"
  | (create) v ms e d3 where
      "fst (isSchemaMigrationNeeded w s) = Ok True"
      "QueryRowUint32 w (version_stmt s) (db s) = Inr v"
      "getEmbeddedMigrations w = Ok ms"
      "Exec w (create_stmt w s) (db s) = (Some e, d3)"
      "EnsureSchemaMigrationFormat w s =
         (Err e, s\<lparr>db := d3,
            sent := sent s @ [(detect_stmt s, None), (version_stmt s, None),
                              (create_stmt w s, Some e)]\<rparr>)"
  | (populate) v ms e d3 d4 where
      "fst (isSchemaMigrationNeeded w s) = Ok True"
      "QueryRowUint32 w (version_stmt s) (db s) = Inr v"
      "getEmbeddedMigrations w = Ok ms"
      "Exec w (create_stmt w s) (db s) = (None, d3)"
      "Exec w (insert_stmt w s (filterMigrations ms v)) d3 = (Some e, d4)"
      "EnsureSchemaMigrationFormat w s =
         (Err e, s\<lparr>db := d4,
            sent := sent s @ [(detect_stmt s, None), (version_stmt s, None),
                              (create_stmt w s, None),
                              (insert_stmt w s (filterMigrations ms v), Some e)]\<rparr>)"
  | (swap_old) v ms e d3 d4 d5 where
      "fst (isSchemaMigrationNeeded w s) = Ok True"
      "QueryRowUint32 w (version_stmt s) (db s) = Inr v"
      "getEmbeddedMigrations w = Ok ms"
      "Exec w (create_stmt w s) (db s) = (None, d3)"
      "Exec w (insert_stmt w s (filterMigrations ms v)) d3 = (None, d4)"
      "Exec w (rename_old s) d4 = (Some e, d5)"
      "EnsureSchemaMigrationFormat w s =
         (Err e, s\<lparr>db := d5,
            sent := sent s @ [(detect_stmt s, None), (version_stmt s, None),
                              (create_stmt w s, None),
                              (insert_stmt w s (filterMigrations ms v), None),
                              (rename_old s, Some e)]\<rparr>)"
  | (swap_new) v ms e d3 d4 d5 d6 where
      "fst (isSchemaMigrationNeeded w s) = Ok True"
      "QueryRowUint32 w (version_stmt s) (db s) = Inr v"
      "getEmbeddedMigrations w = Ok ms"
      "Exec w (create_stmt w s) (db s) = (None, d3)"
      "Exec w (insert_stmt w s (filterMigrations ms v)) d3 = (None, d4)"
      "Exec w (rename_old s) d4 = (None, d5)"
      "Exec w (rename_new w s) d5 = (Some e, d6)"
      "EnsureSchemaMigrationFormat w s =
         (Err e, s\<lparr>db := d6,
            sent := sent s @ [(detect_stmt s, None), (version_stmt s, None),
                              (create_stmt w s, None),
                              (insert_stmt w s (filterMigrations ms v), None),
                              (rename_old s, None), (rename_new w s, Some e)]\<rparr>)"
  | (migrated) v ms d3 d4 d5 d6 where
      "fst (isSchemaMigrationNeeded w s) = Ok True"
      "QueryRowUint32 w (version_stmt s) (db s) = Inr v"
      "getEmbeddedMigrations w = Ok ms"
      "Exec w (create_stmt w s) (db s) = (None, d3)"
      "Exec w (insert_stmt w s (filterMigrations ms v)) d3 = (None, d4)"
      "Exec w (rename_old s) d4 = (None, d5)"
      "Exec w (rename_new w s) d5 = (None, d6)"
      "EnsureSchemaMigrationFormat w s =
         (Ok (), s\<lparr>db := d6,
            sent := sent s @ [(detect_stmt s, None), (version_stmt s, None),
                              (create_stmt w s, None),
                              (insert_stmt w s (filterMigrations ms v), None),
                              (rename_old s, None), (rename_new w s, None)]\<rparr>)"
proof -
  define q0 where "q0 = detect_stmt s"
  define q1 where "q1 = version_stmt s"
  define q2 where "q2 = create_stmt w s"
  define q4 where "q4 = rename_old s"
  define q5 where "q5 = rename_new w s"
  note q_defs = q0_def q1_def q2_def q4_def q5_def
  obtain res s1 where d: "isSchemaMigrationNeeded w s = (res, s1)"
    by (cases "isSchemaMigrationNeeded w s")
  obtain r0 where s1: "s1 = s\<lparr>sent := sent s @ [(q0, r0)]\<rparr>"
    and r0: "\<And>e. r0 = Some e \<Longrightarrow> res = Err e"
    using detector_sent[of w s] d by (auto simp: q0_def record_stmt_def)
  show thesis
  proof (cases "res = Ok True")
    case False
    then have "EnsureSchemaMigrationFormat w s =
         (case res of Ok b \<Rightarrow> Ok () | Err e \<Rightarrow> Err e | Panic \<Rightarrow> Panic, s1)"
      using d by (simp add: EnsureSchemaMigrationFormat_def split: result.splits)
    with False d s1 r0 show thesis
      unfolding q_defs by (intro detect[of r0]) simp_all
  next
    case True
    with r0 have r0: "r0 = None" by (cases r0) simp_all
    have needed: "fst (isSchemaMigrationNeeded w s) = Ok True" using d True by simp
    show thesis
    proof (cases "QueryRowUint32 w q1 (db s)")
      case (Inl e)
      with d True s1 r0 have "EnsureSchemaMigrationFormat w s =
          (Err e, s\<lparr>sent := sent s @ [(q0, None), (q1, Some e)]\<rparr>)"
        by (simp add: EnsureSchemaMigrationFormat_def version_sent record_stmt_def q1_def version_stmt_def)
      with needed Inl show thesis unfolding q_defs by (intro version[of e])
    next
      case (Inr v)
      define s2 where "s2 = s\<lparr>sent := sent s @ [(q0, None), (q1, None)]\<rparr>"
      have v: "getLegacySchemaVersion w s1 = (Ok v, s2)"
        using Inr s1 r0 by (simp add: version_sent record_stmt_def q1_def s2_def version_stmt_def)
      show thesis
      proof (cases "getEmbeddedMigrations w")
        case Panic
        then show thesis by (simp add: getEmbeddedMigrations_no_panic)
      next
        case (Err e)
        with d True v have "EnsureSchemaMigrationFormat w s = (Err e, s2)"
          by (simp add: EnsureSchemaMigrationFormat_def)
        with needed Inr Err show thesis unfolding s2_def q_defs by (intro catalog[of v e])
      next
        case (Ok ms)
        define q3 where "q3 = insert_stmt w s (filterMigrations ms v)"
        have ens: "EnsureSchemaMigrationFormat w s =
           (case Exec w q2 (db s) of
              (Some e, d3) \<Rightarrow>
                (Err e, s\<lparr>db := d3, sent := sent s @ [(q0, None), (q1, None), (q2, Some e)]\<rparr>)
            | (None, d3) \<Rightarrow>
               (case Exec w q3 d3 of
                  (Some e, d4) \<Rightarrow>
                    (Err e, s\<lparr>db := d4,
                       sent := sent s @ [(q0, None), (q1, None), (q2, None), (q3, Some e)]\<rparr>)
                | (None, d4) \<Rightarrow>
                   (case Exec w q4 d4 of
                      (Some e, d5) \<Rightarrow>
                        (Err e, s\<lparr>db := d5,
                           sent := sent s @ [(q0, None), (q1, None), (q2, None), (q3, None),
                                             (q4, Some e)]\<rparr>)
                    | (None, d5) \<Rightarrow>
                       (case Exec w q5 d5 of
                          (Some e, d6) \<Rightarrow>
                            (Err e, s\<lparr>db := d6,
                               sent := sent s @ [(q0, None), (q1, None), (q2, None), (q3, None),
                                                 (q4, None), (q5, Some e)]\<rparr>)
                        | (None, d6) \<Rightarrow>
                            (Ok (), s\<lparr>db := d6,
                               sent := sent s @ [(q0, None), (q1, None), (q2, None), (q3, None),
                                                 (q4, None), (q5, None)]\<rparr>)))))"
          using d True v Ok
          by (simp add: EnsureSchemaMigrationFormat_def tail_unfold s2_def q3_def q2_def q4_def q5_def
              create_stmt_def insert_stmt_def rename_old_def rename_new_def Let_def
              split: prod.splits option.splits)
        obtain r2 d3 where e2: "Exec w q2 (db s) = (r2, d3)" by (cases "Exec w q2 (db s)")
        obtain r3 d4 where e3: "Exec w q3 d3 = (r3, d4)" by (cases "Exec w q3 d3")
        obtain r4 d5 where e4: "Exec w q4 d4 = (r4, d5)" by (cases "Exec w q4 d4")
        obtain r5 d6 where e5: "Exec w q5 d5 = (r5, d6)" by (cases "Exec w q5 d5")
        show thesis
        proof (cases r2)
          case (Some e)
          with ens e2 needed Inr Ok show thesis
            unfolding q_defs by (intro create[of v ms e d3]) simp_all
        next
          case None
          note r2 = this
          show thesis
          proof (cases r3)
            case (Some e)
            with ens e2 e3 r2 needed Inr Ok show thesis
              unfolding q3_def q_defs by (intro populate[of v ms d3 e d4]) simp_all
          next
            case None
            note r3 = this
            show thesis
            proof (cases r4)
              case (Some e)
              with ens e2 e3 e4 r2 r3 needed Inr Ok show thesis
                unfolding q3_def q_defs by (intro swap_old[of v ms d3 d4 e d5]) simp_all
            next
              case None
              note r4 = this
              show thesis
              proof (cases r5)
                case (Some e)
                with ens e2 e3 e4 e5 r2 r3 r4 needed Inr Ok show thesis
                  unfolding q3_def q_defs by (intro swap_new[of v ms d3 d4 d5 e d6]) simp_all
              next
                case None
                with ens e2 e3 e4 e5 r2 r3 r4 needed Inr Ok show thesis
                  unfolding q3_def q_defs by (intro migrated[of v ms d3 d4 d5 d6]) simp_all
              qed
            qed
          qed
        qed
      qed
    qed
  qed
qed

section \<open>Facts about the reference database\<close>









lemma fold_case_names:
  "fold_case ''version'' = ''version''" "fold_case ''dirty'' = ''dirty''"
  "fold_case ''Version'' = ''version''" "fold_case ''Name'' = ''name''"
  by (simp_all add: fold_case_def)



text \<open>The detector on the reference database.\<close>

lemma scan_rows_ok: "list_all (\<lambda>r. length r = 6) rs \<Longrightarrow> scan_rows rs acc = Inr (acc @ rs)"
  by (induction rs arbitrary: acc) (simp_all add: scan6_def)

lemma nameColumnFound_table_info:
  "nameColumnFound (map (table_info_row t) cs) = Ok (''dirty'' \<in> set cs)"
  by (induction cs) (auto simp: table_info_row_def)

lemma ref_detector_sqlite:
  "dbType s = SqliteDBType \<Longrightarrow>
   fst (isSchemaMigrationNeeded (reference tmp rd parse) s) =
     Ok (case map_of (tables (db s)) (tablePrefix s @ ''schema_migrations'') of
           None \<Rightarrow> False
         | Some t \<Rightarrow> ''dirty'' \<in> set (columns t))"
  by (simp add: isSchemaMigrationNeeded_def isSchemaMigrationNeededSQLite_def reference_def ref_Query_def
      Let_def scan_rows_ok nameColumnFound_table_info list_all_iff table_info_row_def split: option.splits)

lemma in_information_schema_columns:
  "(sch, tn, cn) \<in> set (information_schema_columns d) \<longleftrightarrow>
     sch = schema d \<and> (\<exists>t. (tn, t) \<in> set (tables d) \<and> cn \<in> set (columns t))"
  by (auto simp: information_schema_columns_def)



text \<open>Unfolding sets for the evaluation of concrete runs.\<close>

lemmas model_defs =
  EnsureSchemaMigrationFormat_def isSchemaMigrationNeeded_def isSchemaMigrationNeededSQLite_def
  isSchemaMigrationNeeded_query_def getLegacySchemaVersion_def getEmbeddedMigrations_def
  createTempSchemaTable_def populateTempSchemaTable_def useNewSchemaTable_def
  deleteOldSchemaMigrationTable_def filterMigrations_def db_exec_def record_stmt_def rename_stmt_def
  scan6_def sent_by_def detect_stmt_def version_stmt_def create_stmt_def insert_stmt_def
  rename_old_def rename_new_def migration_rows_def Let_def

lemmas ref_defs =
  reference_def ref_Exec_def ref_Query_def ref_QueryRowInt_def ref_QueryRowUint32_def
  rename_table_def new_table_def insert_row_def key_violation_def cell_def fold_case_names
  table_info_row_def
  information_schema_columns_def wf_database_def

lemmas example_defs =
  files_env_def example_env_def example_files_def five_migrations_def example_catalog_def
  duplicate_env_def
  bad_connection_env_def two_columns_env_def null_name_env_def lenient_env_def legacy_table_def
  legacy_db_def stale_row_db_def stale_dirty_db_def populated_db_def blocked_db_def example_store_def

section \<open>The claims\<close>

subsection \<open>The filter\<close>

text \<open>
  C5. \<^verbatim>\<open>filterMigrations\<close> is a function of its two arguments alone. It keeps exactly the
  up entries of the catalog whose version is at most the legacy version, in the order of
  the catalog; on a catalog that holds only up entries (what \<^verbatim>\<open>getEmbeddedMigrations\<close>
  returns) that is exactly the entries with version at most the legacy version. For up
  entries with versions 1 to 5 and legacy version 3 the result is the entries for versions
  1, 2 and 3, in catalog order.
\<close>

theorem filterMigrations_keeps_applied_in_order:
  "filterMigrations catalog legacyVersion =
     filter (\<lambda>m. Direction m = Up \<and> Version m \<le> legacyVersion) catalog \<and>
   ((\<forall>m \<in> set catalog. Direction m = Up) \<longrightarrow>
      filterMigrations catalog legacyVersion = filter (\<lambda>m. Version m \<le> legacyVersion) catalog)"
proof -
  have general: "filterMigrations catalog legacyVersion =
      filter (\<lambda>m. Direction m = Up \<and> Version m \<le> legacyVersion) catalog"
    by (simp add: filterMigrations_def filterMigrations_loop_filter)
  moreover have "filter (\<lambda>m. Direction m = Up \<and> Version m \<le> legacyVersion) catalog =
      filter (\<lambda>m. Version m \<le> legacyVersion) catalog"
    if "\<forall>m \<in> set catalog. Direction m = Up"
    using that by (intro filter_cong) auto
  ultimately show ?thesis by simp
qed

theorem filterMigrations_keeps_applied_in_order_witness:
  "map Version five_migrations = [1, 2, 3, 4, 5] \<and>
   filterMigrations five_migrations 3 = filter (\<lambda>m. Version m \<le> 3) five_migrations \<and>
   filterMigrations five_migrations 3 =
     [\<lparr>Version = 1, Name = ''init'', Direction = Up\<rparr>,
      \<lparr>Version = 2, Name = ''add_users'', Direction = Up\<rparr>,
      \<lparr>Version = 3, Name = ''add_index'', Direction = Up\<rparr>] \<and>
   filterMigrations (map snd example_files) 3 = filterMigrations five_migrations 3"
  using filterMigrations_keeps_applied_in_order[of five_migrations 3]
    filterMigrations_keeps_applied_in_order[of "map snd example_files" 3]
  by (simp add: five_migrations_def example_files_def)

subsection \<open>The format detector\<close>

text \<open>
  C4. On every dialect but SQLite the detector sends the count query once. When the
  query yields a count, migration is needed exactly when the count is 1 (so a count of 0,
  of 2 or of more means not needed); when the query or its scan fails, the detector
  returns that error, and so does \<^verbatim>\<open>EnsureSchemaMigrationFormat\<close>, which sends nothing
  further.
\<close>

theorem isSchemaMigrationNeeded_count_exactly_one:
  assumes "dbType s \<noteq> SqliteDBType"
  shows "(\<forall>count. QueryRowInt w (isSchemaMigrationNeeded_query s) (db s) = Inr count \<longrightarrow>
            isSchemaMigrationNeeded w s =
              (Ok (count = 1), record_stmt (isSchemaMigrationNeeded_query s) None s)) \<and>
         (\<forall>err. QueryRowInt w (isSchemaMigrationNeeded_query s) (db s) = Inl err \<longrightarrow>
            isSchemaMigrationNeeded w s =
              (Err err, record_stmt (isSchemaMigrationNeeded_query s) (Some err) s) \<and>
            EnsureSchemaMigrationFormat w s =
              (Err err, record_stmt (isSchemaMigrationNeeded_query s) (Some err) s))"
  using assms by (simp add: isSchemaMigrationNeeded_def EnsureSchemaMigrationFormat_def Let_def)

theorem isSchemaMigrationNeeded_count_exactly_one_witness:
  "fst (isSchemaMigrationNeeded example_env (example_store MysqlDBType (legacy_db 5))) = Ok True \<and>
   fst (isSchemaMigrationNeeded example_env
          (example_store MysqlDBType \<lparr>schema = ''public'', tables = []\<rparr>)) = Ok False \<and>
   fst (isSchemaMigrationNeeded two_columns_env (example_store OtherDBType (legacy_db 5))) = Ok False \<and>
   EnsureSchemaMigrationFormat bad_connection_env (example_store PostgresDBType (legacy_db 5)) =
     (Err ''driver: bad connection'',
      (example_store PostgresDBType (legacy_db 5))
        \<lparr>sent := [(SelectCountWhere ''information_schema.COLUMNS''
                     [(''TABLE_NAME'', ''focalboard_schema_migrations''), (''COLUMN_NAME'', ''dirty''),
                      (''TABLE_SCHEMA'', ''current_schema()'')],
                   Some ''driver: bad connection'')]\<rparr>)"
  using isSchemaMigrationNeeded_count_exactly_one[of "example_store MysqlDBType (legacy_db 5)" example_env]
    isSchemaMigrationNeeded_count_exactly_one
      [of "example_store MysqlDBType \<lparr>schema = ''public'', tables = []\<rparr>" example_env]
    isSchemaMigrationNeeded_count_exactly_one[of "example_store OtherDBType (legacy_db 5)" two_columns_env]
    isSchemaMigrationNeeded_count_exactly_one
      [of "example_store PostgresDBType (legacy_db 5)" bad_connection_env]
  by (simp add: model_defs ref_defs example_defs)

lemma nameColumnFound_panic_iff:
  "list_all (\<lambda>r. 2 \<le> length r) rs \<Longrightarrow>
   (nameColumnFound rs = Panic) =
     (\<exists>r \<in> set (takeWhile (\<lambda>r. r ! 1 \<noteq> Some ''dirty'') rs). r ! 1 = None)"
  by (induction rs) (auto split: option.splits)

lemma nameColumnFound_total:
  "list_all (\<lambda>r. 2 \<le> length r \<and> r ! 1 \<noteq> None) rs \<Longrightarrow>
   nameColumnFound rs = Ok (\<exists>r \<in> set rs. r ! 1 = Some ''dirty'')"
  by (induction rs) auto

text \<open>
  C10. On SQLite the name of an introspection row is dereferenced with no nil check. Let
  the pragma deliver rows of six columns. If every row has a name, the detector returns
  whether some row is named \<open>dirty\<close>. It panics exactly when a row with a NULL name is
  among the rows it looks at, which are the rows before the first one named \<open>dirty\<close>:
  without the precondition on the names the detector is not total.
\<close>

theorem sqlite_detector_needs_names:
  assumes "Query w (PragmaTableInfo (tablePrefix s @ ''schema_migrations'')) (db s) = Inr rs"
    and "\<forall>r \<in> set rs. length r = 6"
  shows "((\<forall>r \<in> set rs. r ! 1 \<noteq> None) \<longrightarrow>
            fst (isSchemaMigrationNeededSQLite w s) = Ok (\<exists>r \<in> set rs. r ! 1 = Some ''dirty'')) \<and>
         (fst (isSchemaMigrationNeededSQLite w s) = Panic \<longleftrightarrow>
            (\<exists>r \<in> set (takeWhile (\<lambda>r. r ! 1 \<noteq> Some ''dirty'') rs). r ! 1 = None))"
proof -
  from assms(2) have six: "list_all (\<lambda>r. length r = 6) rs" by (simp add: list_all_iff)
  then have two: "list_all (\<lambda>r. 2 \<le> length r) rs" by (simp add: list_all_iff)
  have res: "fst (isSchemaMigrationNeededSQLite w s) = nameColumnFound rs"
    using assms(1) six by (simp add: isSchemaMigrationNeededSQLite_def scan_rows_ok)
  have "nameColumnFound rs = Ok (\<exists>r \<in> set rs. r ! 1 = Some ''dirty'')"
    if "\<forall>r \<in> set rs. r ! 1 \<noteq> None"
    using that two by (intro nameColumnFound_total) (simp add: list_all_iff)
  with res nameColumnFound_panic_iff[OF two] show ?thesis by simp
qed

theorem sqlite_detector_needs_names_witness:
  "fst (isSchemaMigrationNeededSQLite null_name_env (example_store SqliteDBType (legacy_db 5))) = Panic \<and>
   fst (EnsureSchemaMigrationFormat null_name_env (example_store SqliteDBType (legacy_db 5))) = Panic \<and>
   fst (isSchemaMigrationNeededSQLite example_env (example_store SqliteDBType (legacy_db 5))) = Ok True"
  using sqlite_detector_needs_names[of null_name_env "example_store SqliteDBType (legacy_db 5)"
      "[[Some ''0'', None, Some ''bigint'', Some ''1'', None, Some ''1'']]"]
    sqlite_detector_needs_names[of example_env "example_store SqliteDBType (legacy_db 5)"
      "[[Some ''0'', Some ''version'', Some [], Some ''0'', None, Some ''1''],
        [Some ''0'', Some ''dirty'', Some [], Some ''0'', None, Some ''0'']]"]
  by (simp add: model_defs ref_defs example_defs)

subsection \<open>The swap\<close>

text \<open>
  C7. The swap sends its renames in a fixed order: first the canonical table to the
  \<open>_old_temp\<close> name, then the temp table to the canonical name. When the first rename
  fails its error is returned and nothing else is sent; otherwise exactly the two renames
  are sent, the second on the database the first one left, and its outcome is the result.
  On MySQL both are \<^verbatim>\<open>RENAME TABLE\<close> statements, on every other dialect
  \<^verbatim>\<open>ALTER TABLE ... RENAME TO\<close> statements.
\<close>

theorem useNewSchemaTable_two_ordered_renames:
  "sent_by s (snd (useNewSchemaTable w s)) =
     (case fst (Exec w (rename_old s) (db s)) of
        Some err \<Rightarrow> [(rename_old s, Some err)]
      | None \<Rightarrow> [(rename_old s, None), (rename_new w s, fst (useNewSchemaTable w s))]) \<and>
   (\<forall>err. fst (Exec w (rename_old s) (db s)) = Some err \<longrightarrow> fst (useNewSchemaTable w s) = Some err) \<and>
   (fst (Exec w (rename_old s) (db s)) = None \<longrightarrow>
      useNewSchemaTable w s = db_exec w (rename_new w s) (snd (db_exec w (rename_old s) s))) \<and>
   rename_old s =
     (if dbType s = MysqlDBType
      then RenameTable (tablePrefix s @ ''schema_migrations'')
             (tablePrefix s @ ''schema_migrations_old_temp'')
      else AlterTableRenameTo (tablePrefix s @ ''schema_migrations'')
             (tablePrefix s @ ''schema_migrations_old_temp'')) \<and>
   rename_new w s =
     (if dbType s = MysqlDBType
      then RenameTable (tablePrefix s @ tempSchemaMigrationTableName w)
             (tablePrefix s @ ''schema_migrations'')
      else AlterTableRenameTo (tablePrefix s @ tempSchemaMigrationTableName w)
             (tablePrefix s @ ''schema_migrations''))"
  by (simp add: useNewSchemaTable_def db_exec_def record_stmt_def sent_by_def rename_old_def rename_new_def
      rename_stmt_def split: prod.splits option.splits)

theorem useNewSchemaTable_two_ordered_renames_witness:
  "sent_by (example_store MysqlDBType populated_db)
     (snd (useNewSchemaTable example_env (example_store MysqlDBType populated_db))) =
     [(RenameTable ''focalboard_schema_migrations'' ''focalboard_schema_migrations_old_temp'', None),
      (RenameTable ''focalboard_temp_schema_migration'' ''focalboard_schema_migrations'', None)] \<and>
   sent_by (example_store SqliteDBType populated_db)
     (snd (useNewSchemaTable example_env (example_store SqliteDBType populated_db))) =
     [(AlterTableRenameTo ''focalboard_schema_migrations'' ''focalboard_schema_migrations_old_temp'', None),
      (AlterTableRenameTo ''focalboard_temp_schema_migration'' ''focalboard_schema_migrations'', None)] \<and>
   sent_by (example_store PostgresDBType blocked_db)
     (snd (useNewSchemaTable example_env (example_store PostgresDBType blocked_db))) =
     [(AlterTableRenameTo ''focalboard_schema_migrations'' ''focalboard_schema_migrations_old_temp'',
       Some ''table already exists'')] \<and>
   fst (useNewSchemaTable example_env (example_store PostgresDBType blocked_db)) =
     Some ''table already exists''"
  using useNewSchemaTable_two_ordered_renames[of "example_store MysqlDBType populated_db" example_env]
    useNewSchemaTable_two_ordered_renames[of "example_store SqliteDBType populated_db" example_env]
    useNewSchemaTable_two_ordered_renames[of "example_store PostgresDBType blocked_db" example_env]
  by (simp add: model_defs ref_defs example_defs)

subsection \<open>Populate without migrations\<close>



subsection \<open>The cleanup\<close>

lemma ref_cleanup:
  "deleteOldSchemaMigrationTable (reference tmp rd parse) s =
     (None,
      s\<lparr>db := (db s)\<lparr>tables :=
                  AList.delete (tablePrefix s @ ''schema_migrations_old_temp'') (tables (db s))\<rparr>,
        sent := sent s @
                  [(DropTableIfExists (tablePrefix s @ ''schema_migrations_old_temp''), None)]\<rparr>)"
  by (simp add: deleteOldSchemaMigrationTable_def db_exec_def record_stmt_def reference_def ref_Exec_def)

lemma cleanup_times_db:
  "db (cleanup_times (Suc n) (reference tmp rd parse) s) =
     db (snd (deleteOldSchemaMigrationTable (reference tmp rd parse) s))"
proof (induction n arbitrary: s)
  case 0
  show ?case by simp
next
  case (Suc n)
  have "db (cleanup_times (Suc (Suc n)) (reference tmp rd parse) s) =
        db (cleanup_times (Suc n) (reference tmp rd parse)
              (snd (deleteOldSchemaMigrationTable (reference tmp rd parse) s)))"
    by simp
  also have "\<dots> = db (snd (deleteOldSchemaMigrationTable (reference tmp rd parse)
                          (snd (deleteOldSchemaMigrationTable (reference tmp rd parse) s))))"
    by (rule Suc.IH)
  also have "\<dots> = db (snd (deleteOldSchemaMigrationTable (reference tmp rd parse) s))"
    by (simp add: ref_cleanup delete_idem)
  finally show ?case .
qed

lemmas stmt_defs =
  detect_stmt_def isSchemaMigrationNeeded_query_def version_stmt_def create_stmt_def insert_stmt_def
  rename_old_def rename_new_def rename_stmt_def

lemma ensure_sends_no_drop:
  "list_all (\<lambda>(q, r). \<not> is_drop q) (sent_by s (snd (EnsureSchemaMigrationFormat w s)))"
  by (cases rule: ensure_cases[of w s]) (simp_all add: sent_by_def stmt_defs Let_def)

text \<open>
  C8. The cleanup drops the \<open>_old_temp\<close> table if it exists. On the reference database
  it never fails; when there is no backup table it leaves the database as it is; after it
  the backup table is gone and every other table is untouched; called any number of times
  in a row, each call succeeds and the database is the one the first call left. No run
  of \<^verbatim>\<open>EnsureSchemaMigrationFormat\<close>, on any database, sends a drop statement.
\<close>

theorem cleanup_is_idempotent_and_never_chained:
  fixes s :: "database SQLStore" and w' :: "'db env" and s' :: "'db SQLStore"
    and tmp :: string and rd :: "string \<Rightarrow> error + string list"
    and parse :: "string \<Rightarrow> error + Migration"
  defines "w \<equiv> reference tmp rd parse"
  shows "fst (deleteOldSchemaMigrationTable w s) = None \<and>
    (map_of (tables (db s)) (tablePrefix s @ ''schema_migrations_old_temp'') = None \<longrightarrow>
       db (snd (deleteOldSchemaMigrationTable w s)) = db s) \<and>
    map_of (tables (db (snd (deleteOldSchemaMigrationTable w s)))) =
      (map_of (tables (db s)))(tablePrefix s @ ''schema_migrations_old_temp'' := None) \<and>
    fst (deleteOldSchemaMigrationTable w (cleanup_times n w s)) = None \<and>
    db (cleanup_times (Suc n) w s) = db (snd (deleteOldSchemaMigrationTable w s)) \<and>
    list_all (\<lambda>(q, r). \<not> is_drop q) (sent_by s' (snd (EnsureSchemaMigrationFormat w' s')))"
proof -
  have "db (cleanup_times (Suc n) w s) = db (snd (deleteOldSchemaMigrationTable w s))"
    unfolding w_def by (rule cleanup_times_db)
  moreover have "fst (deleteOldSchemaMigrationTable w (cleanup_times n w s)) = None"
    unfolding w_def by (simp add: ref_cleanup)
  moreover have "fst (deleteOldSchemaMigrationTable w s) = None \<and>
    (map_of (tables (db s)) (tablePrefix s @ ''schema_migrations_old_temp'') = None \<longrightarrow>
       db (snd (deleteOldSchemaMigrationTable w s)) = db s) \<and>
    map_of (tables (db (snd (deleteOldSchemaMigrationTable w s)))) =
      (map_of (tables (db s)))(tablePrefix s @ ''schema_migrations_old_temp'' := None)"
    unfolding w_def by (simp add: ref_cleanup delete_conv' map_of_eq_None_iff)
  ultimately show ?thesis
    using ensure_sends_no_drop[of s' w'] by blast
qed

theorem cleanup_is_idempotent_and_never_chained_witness:
  "fst (deleteOldSchemaMigrationTable example_env (example_store MysqlDBType (legacy_db 5))) = None \<and>
   db (snd (deleteOldSchemaMigrationTable example_env (example_store MysqlDBType (legacy_db 5)))) =
     legacy_db 5 \<and>
   db (cleanup_times 3 example_env (example_store MysqlDBType blocked_db)) = populated_db \<and>
   list_all (\<lambda>(q, r). \<not> is_drop q)
     (sent_by (example_store MysqlDBType (legacy_db 5))
        (snd (EnsureSchemaMigrationFormat example_env (example_store MysqlDBType (legacy_db 5)))))"
  using cleanup_is_idempotent_and_never_chained[where tmp = "''temp_schema_migration''"
      and s = "example_store MysqlDBType (legacy_db 5)" and n = 0 and w' = example_env
      and s' = "example_store MysqlDBType (legacy_db 5)"]
    cleanup_is_idempotent_and_never_chained[where tmp = "''temp_schema_migration''"
      and s = "example_store MysqlDBType blocked_db" and n = 2 and w' = example_env
      and s' = "example_store MysqlDBType (legacy_db 5)"]
  by (simp add: model_defs ref_defs example_defs numeral_3_eq_3)

subsection \<open>Errors\<close>










subsection \<open>The detector on the reference database\<close>

text \<open>
  On SQLite, on MySQL when the configured schema name is the connection's schema, and on
  the default path, the detector answers whether the canonical table has a column named
  \<open>dirty\<close>.
\<close>

lemma length_filter_dirty:
  "distinct cs \<Longrightarrow> length (filter (\<lambda>c. c = ''dirty'') cs) = (if ''dirty'' \<in> set cs then 1 else 0)"
  by (induction cs) (auto simp: filter_empty_conv)

lemma count_dirty_rows:
  assumes P: "\<And>k c. P (sch, k, c) \<longleftrightarrow> k = n \<and> c = ''dirty''"
  shows "distinct (map fst al) \<Longrightarrow> map_of al n = Some t \<Longrightarrow> distinct (columns t) \<Longrightarrow>
     length (filter P (concat (map (\<lambda>(k, t). map (\<lambda>c. (sch, k, c)) (columns t)) al))) =
       (if ''dirty'' \<in> set (columns t) then 1 else 0)"
proof (induction al)
  case Nil
  then show ?case by simp
next
  case (Cons a al)
  obtain k t' where a: "a = (k, t')" by (cases a)
  have here: "length (filter P (map (\<lambda>c. (sch, k, c)) (columns t'))) =
      (if k = n then length (filter (\<lambda>c. c = ''dirty'') (columns t')) else 0)"
    by (simp add: filter_map o_def P)
  show ?case
  proof (cases "k = n")
    case True
    with Cons.prems a have t': "t' = t" and "n \<notin> fst ` set al" by auto
    then have "filter P (concat (map (\<lambda>(k, t). map (\<lambda>c. (sch, k, c)) (columns t)) al)) = []"
      by (force simp: filter_empty_conv P)
    with here True t' Cons.prems(3) a show ?thesis
      by (simp add: length_filter_dirty)
  next
    case False
    with Cons a here show ?thesis by simp
  qed
qed

lemma detector_finds_dirty_column:
  fixes s :: "database SQLStore"
  assumes "wf_database (db s)"
    and "map_of (tables (db s)) (tablePrefix s @ ''schema_migrations'') = Some t"
    and "distinct (columns t)"
    and "dbType s = SqliteDBType \<or> dbType s = OtherDBType \<or>
         (dbType s = MysqlDBType \<and> schemaName s = schema (db s))"
  shows "fst (isSchemaMigrationNeeded (reference tmp rd parse) s) = Ok (''dirty'' \<in> set (columns t))"
proof (cases "dbType s = SqliteDBType")
  case True
  with assms(2) show ?thesis by (simp add: ref_detector_sqlite)
next
  case False
  note count = count_dirty_rows[where sch = "schema (db s)" and al = "tables (db s)"
      and n = "tablePrefix s @ ''schema_migrations''" and t = t,
      OF _ assms(1)[unfolded wf_database_def] assms(2) assms(3)]
  have 1: "length (filter (\<lambda>r. list_all (cond_holds r)
        [(''TABLE_NAME'', tablePrefix s @ ''schema_migrations''), (''COLUMN_NAME'', ''dirty'')])
        (information_schema_columns (db s))) = (if ''dirty'' \<in> set (columns t) then 1 else 0)"
    unfolding information_schema_columns_def by (rule count) simp
  have 2: "length (filter (\<lambda>r. list_all (cond_holds r)
        [(''TABLE_NAME'', tablePrefix s @ ''schema_migrations''), (''COLUMN_NAME'', ''dirty''),
         (''TABLE_SCHEMA'', schema (db s))])
        (information_schema_columns (db s))) = (if ''dirty'' \<in> set (columns t) then 1 else 0)"
    unfolding information_schema_columns_def by (rule count) simp
  from False assms(4) show ?thesis
  proof (elim disjE conjE)
    assume "dbType s = OtherDBType"
    with 1 show ?thesis
      by (simp add: isSchemaMigrationNeeded_def isSchemaMigrationNeeded_query_def ref_QueryRowInt_def
          reference_def Let_def)
  next
    assume "dbType s = MysqlDBType" "schemaName s = schema (db s)"
    with 2 show ?thesis
      by (simp add: isSchemaMigrationNeeded_def isSchemaMigrationNeeded_query_def ref_QueryRowInt_def
          reference_def Let_def)
  qed simp
qed

subsection \<open>The Postgres schema filter\<close>

text \<open>
  C3. The detector is meant to report a \<open>dirty\<close> column on the canonical table on every
  dialect. On Postgres the schema filter is \<^verbatim>\<open>sq.Eq{"TABLE_SCHEMA": "current_schema()"}\<close>:
  the text \<^verbatim>\<open>current_schema()\<close> is the bound argument of \<^verbatim>\<open>TABLE_SCHEMA = ?\<close>, not a call,
  so the schema name is compared with that text. In every schema with another name the
  count is 0: the detector answers false whatever columns the canonical table has, and
  \<^verbatim>\<open>EnsureSchemaMigrationFormat\<close> returns without migrating.
\<close>

theorem postgres_detector_compares_schema_with_text:
  fixes s :: "database SQLStore"
  assumes "dbType s = PostgresDBType" and "schema (db s) \<noteq> ''current_schema()''"
  shows "isSchemaMigrationNeeded_query s =
           SelectCountWhere ''information_schema.COLUMNS''
             [(''TABLE_NAME'', tablePrefix s @ ''schema_migrations''), (''COLUMN_NAME'', ''dirty''),
              (''TABLE_SCHEMA'', ''current_schema()'')] \<and>
         fst (isSchemaMigrationNeeded (reference tmp rd parse) s) = Ok False \<and>
         EnsureSchemaMigrationFormat (reference tmp rd parse) s =
           (Ok (), s\<lparr>sent := sent s @ [(isSchemaMigrationNeeded_query s, None)]\<rparr>)"
proof -
  have "\<not> list_all (cond_holds r)
          [(''TABLE_NAME'', tablePrefix s @ ''schema_migrations''), (''COLUMN_NAME'', ''dirty''),
           (''TABLE_SCHEMA'', ''current_schema()'')]"
    if "r \<in> set (information_schema_columns (db s))" for r
  proof -
    obtain sch tn cn where r: "r = (sch, tn, cn)" by (cases r)
    with that have "sch = schema (db s)" by (simp add: in_information_schema_columns)
    with assms(2) show ?thesis by (simp add: r)
  qed
  then have "filter (\<lambda>r. list_all (cond_holds r)
          [(''TABLE_NAME'', tablePrefix s @ ''schema_migrations''), (''COLUMN_NAME'', ''dirty''),
           (''TABLE_SCHEMA'', ''current_schema()'')]) (information_schema_columns (db s)) = []"
    by (simp add: filter_empty_conv)
  with assms(1) show ?thesis
    by (simp add: isSchemaMigrationNeeded_def isSchemaMigrationNeeded_query_def ref_QueryRowInt_def
        reference_def EnsureSchemaMigrationFormat_def record_stmt_def Let_def)
qed

theorem postgres_detector_compares_schema_with_text_witness:
  "map_of (tables (legacy_db 5)) ''focalboard_schema_migrations'' = Some (legacy_table 5) \<and>
   columns (legacy_table 5) = [''version'', ''dirty''] \<and>
   fst (isSchemaMigrationNeeded example_env (example_store PostgresDBType (legacy_db 5))) = Ok False \<and>
   fst (EnsureSchemaMigrationFormat example_env (example_store PostgresDBType (legacy_db 5))) = Ok () \<and>
   db (snd (EnsureSchemaMigrationFormat example_env (example_store PostgresDBType (legacy_db 5)))) =
     legacy_db 5 \<and>
   fst (isSchemaMigrationNeeded example_env (example_store MysqlDBType (legacy_db 5))) = Ok True \<and>
   fst (isSchemaMigrationNeeded example_env (example_store SqliteDBType (legacy_db 5))) = Ok True \<and>
   fst (isSchemaMigrationNeeded example_env (example_store OtherDBType (legacy_db 5))) = Ok True"
  using postgres_detector_compares_schema_with_text[of "example_store PostgresDBType (legacy_db 5)"
      "''temp_schema_migration''"]
  by (simp add: model_defs ref_defs example_defs)

subsection \<open>The migrated table\<close>





subsection \<open>The second call\<close>





end
